theory Spec2Isabelle
  imports Complex_Main
begin

section \<open>Values, errors and library boundaries of \<open>backend/server.py\<close>\<close>

text \<open>
  Text and byte strings are lists of 8-bit characters (code points below 256).
  Values produced by \<open>json.loads\<close> are Python objects: \<open>None\<close>, \<open>bool\<close>, \<open>int\<close>,
  \<open>float\<close>, \<open>str\<close>, \<open>list\<close> and \<open>dict\<close>. A dict is an association list; the number of
  its keys counts every key once.
\<close>

datatype json =
    JNull
  | JBool bool
  | JInt int
  | JFloat real
  | JStr string
  | JArr "json list"
  | JObj "(string \<times> json) list"

text \<open>
  Exceptions leave a handler either as a \<open>HTTPException(status_code, detail)\<close> or,
  when nothing catches them, as the pydantic \<open>ValidationError\<close> that the framework
  turns into an internal server error.
\<close>

datatype error =
    HTTPException nat string
  | ValidationError

fun status_code :: "error \<Rightarrow> nat" where
  "status_code (HTTPException c d) = c"
| "status_code ValidationError = 500"

text \<open>
  The library calls of \<open>process_uploaded_data\<close>: \<open>bytes.decode('utf-8')\<close>,
  \<open>json.loads\<close> and \<open>pandas.read_csv\<close> followed by \<open>to_dict('records')\<close>. Each either
  raises (\<open>Inl\<close> the text of the exception) or returns. For csv the result is the list
  of records together with \<open>len(df.columns)\<close>.
\<close>

record libs =
  utf8_decode :: "string \<Rightarrow> string + string"
  json_loads :: "string \<Rightarrow> string + json"
  read_csv :: "string \<Rightarrow> string + (json list \<times> nat)"

subsection \<open>Python string helpers\<close>

definition lower_char :: "char \<Rightarrow> char" where
  "lower_char c =
     (let n = (of_char c :: nat) in
      if (65 \<le> n \<and> n \<le> 90) \<or> (192 \<le> n \<and> n \<le> 222 \<and> n \<noteq> 215)
      then char_of (n + 32) else c)"

definition lower :: "string \<Rightarrow> string" where
  "lower s = map lower_char s"

text \<open>\<open>s.split(sep)\<close> for a one-character separator: never empty, one more piece than separators.\<close>

fun split :: "char \<Rightarrow> string \<Rightarrow> string list" where
  "split sep [] = [[]]"
| "split sep (c # cs) =
     (if c = sep then [] # split sep cs
      else (case split sep cs of
              [] \<Rightarrow> [[c]]
            | l # ls \<Rightarrow> (c # l) # ls))"

text \<open>\<open>str.isspace\<close> on one character, for code points below 256.\<close>

definition isspace :: "char \<Rightarrow> bool" where
  "isspace c =
     (let n = (of_char c :: nat) in
      (9 \<le> n \<and> n \<le> 13) \<or> (28 \<le> n \<and> n \<le> 32) \<or> n = 133 \<or> n = 160)"

text \<open>\<open>s.strip()\<close> removes leading and trailing whitespace.\<close>

definition strip :: "string \<Rightarrow> string" where
  "strip s = rev (dropWhile isspace (rev (dropWhile isspace s)))"

text \<open>Truthiness of the Python values that the handlers test.\<close>

definition truthy_str :: "string \<Rightarrow> bool" where
  "truthy_str s = (s \<noteq> [])"

text \<open>\<open>type(v).__name__\<close>, as it appears in the text of an \<open>AttributeError\<close>.\<close>

fun type_name :: "json \<Rightarrow> string" where
  "type_name JNull = ''NoneType''"
| "type_name (JBool b) = ''bool''"
| "type_name (JInt i) = ''int''"
| "type_name (JFloat f) = ''float''"
| "type_name (JStr s) = ''str''"
| "type_name (JArr xs) = ''list''"
| "type_name (JObj kvs) = ''dict''"

text \<open>\<open>len(v.keys())\<close>: the key count of a dict, an \<open>AttributeError\<close> on anything else.\<close>

fun len_keys :: "json \<Rightarrow> string + nat" where
  "len_keys (JObj kvs) = Inr (length (remdups (map fst kvs)))"
| "len_keys v = Inl ([CHR 0x27] @ type_name v @ [CHR 0x27] @ '' object has no attribute '' @ [CHR 0x27] @ ''keys'' @ [CHR 0x27])"

fun is_dict :: "json \<Rightarrow> bool" where
  "is_dict (JObj kvs) = True"
| "is_dict v = False"

section \<open>The file ingestor: \<open>process_uploaded_data\<close>\<close>

record processed =
  data :: "json list"
  preview :: "json list"
  column_count :: nat
  row_count :: nat

definition bad_file :: "string \<Rightarrow> error" where
  "bad_file msg = HTTPException 400 (''Error processing file: '' @ msg)"

definition process_json :: "json \<Rightarrow> error + processed" where
  "process_json d =
     (case d of
        JArr xs \<Rightarrow>
          (case (if xs \<noteq> [] then len_keys (hd xs) else Inr 0) of
             Inl msg \<Rightarrow> Inl (bad_file msg)
           | Inr n \<Rightarrow> Inr \<lparr>data = xs, preview = take 5 xs, column_count = n,
                           row_count = length xs\<rparr>)
      | _ \<Rightarrow>
          (case len_keys d of
             Inl msg \<Rightarrow> Inl (bad_file msg)
           | Inr n \<Rightarrow> Inr \<lparr>data = [d], preview = [d], column_count = n, row_count = 1\<rparr>))"

definition text_rows :: "string \<Rightarrow> json list" where
  "text_rows text_content =
     map (\<lambda>line. JObj [(''text'', JStr line)])
         (filter (\<lambda>line. truthy_str (strip line)) (split (CHR 0x0A) text_content))"

definition process_uploaded_data :: "libs \<Rightarrow> string \<Rightarrow> string \<Rightarrow> error + processed" where
  "process_uploaded_data L file_content file_type =
     (if lower file_type = ''csv'' then
        (case read_csv L file_content of
           Inl msg \<Rightarrow> Inl (bad_file msg)
         | Inr (rows, ncols) \<Rightarrow>
             Inr \<lparr>data = rows, preview = take 5 rows, column_count = ncols,
                  row_count = length rows\<rparr>)
      else if lower file_type = ''json'' then
        (case utf8_decode L file_content of
           Inl msg \<Rightarrow> Inl (bad_file msg)
         | Inr s \<Rightarrow>
             (case json_loads L s of
                Inl msg \<Rightarrow> Inl (bad_file msg)
              | Inr d \<Rightarrow> process_json d))
      else if lower file_type = ''txt'' then
        (case utf8_decode L file_content of
           Inl msg \<Rightarrow> Inl (bad_file msg)
         | Inr text_content \<Rightarrow>
             (let rows = text_rows text_content in
              Inr \<lparr>data = rows, preview = take 5 rows, column_count = 1,
                   row_count = length rows\<rparr>))
      else Inl (bad_file (''Unsupported file type: '' @ file_type)))"


section \<open>Records of the document store\<close>

text \<open>
  The pydantic models of the source. A stored user document is the \<open>User\<close> model plus
  the password hash; a stored dataset document is the \<open>Dataset\<close> model plus
  \<open>full_data\<close>. Timestamps are seconds since the epoch.
\<close>

record User =
  usr_id :: string
  usr_email :: string
  usr_name :: string
  usr_created_at :: real

record user_doc = User +
  usr_password :: string



record Dataset =
  ds_id :: string
  ds_name :: string
  ds_user_id :: string
  ds_file_type :: string
  ds_file_size :: nat
  ds_data_preview :: "json list"
  ds_column_count :: nat
  ds_row_count :: nat
  ds_created_at :: real

record dataset_doc = Dataset +
  full_data :: "json list"

record ModelTraining =
  mt_id :: string
  mt_name :: string
  mt_user_id :: string
  mt_dataset_id :: string
  mt_status :: string
  mt_model_type :: string
  mt_custom_prompt :: string
  mt_training_data :: "json list"
  mt_created_at :: real
  mt_completed_at :: "real option"

record DeployedModel =
  dm_id :: string
  dm_name :: string
  dm_user_id :: string
  dm_training_id :: string
  dm_api_endpoint :: string
  dm_status :: string
  dm_usage_count :: int
  dm_created_at :: real

record ModelTestResponse =
  resp_output :: string
  resp_confidence :: real
  resp_processing_time :: real

text \<open>The four collections, each in insertion order.\<close>

record db =
  users :: "user_doc list"
  datasets :: "dataset_doc list"
  model_trainings :: "ModelTraining list"
  deployed_models :: "DeployedModel list"

text \<open>
  \<open>find_one\<close> is the first match (\<open>List.find\<close>), \<open>find(...).to_list(n)\<close> the first
  \<open>n\<close> matches, \<open>count_documents\<close> the number of matches, and \<open>update_one\<close> changes the
  first match and nothing when there is none.
\<close>

definition to_list :: "nat \<Rightarrow> ('a \<Rightarrow> bool) \<Rightarrow> 'a list \<Rightarrow> 'a list" where
  "to_list n P xs = take n (filter P xs)"

definition count_documents :: "('a \<Rightarrow> bool) \<Rightarrow> 'a list \<Rightarrow> nat" where
  "count_documents P xs = length (filter P xs)"

fun update_one :: "('a \<Rightarrow> bool) \<Rightarrow> ('a \<Rightarrow> 'a) \<Rightarrow> 'a list \<Rightarrow> 'a list" where
  "update_one P f [] = []"
| "update_one P f (x # xs) = (if P x then f x # xs else x # update_one P f xs)"

text \<open>
  Configuration read once at start-up, and what a request draws from its surroundings:
  a fresh \<open>uuid4\<close>, two readings of the clock, and a bcrypt salt.
\<close>

record config =
  JWT_SECRET :: string
  GOOGLE_API_KEY :: "string option"

record env =
  uuid :: string
  clock :: real
  clock2 :: real
  salt :: string

section \<open>The credential store\<close>

text \<open>
  The token payload \<open>{user_id, exp}\<close>. A token is either a payload signed under a secret
  or any other text. The bcrypt and PyJWT calls are parameters.
\<close>

record payload =
  p_user_id :: "string option"
  p_exp :: real

datatype token = Signed payload string | Opaque string

datatype jwt_result = Decoded payload | ExpiredSignatureError | InvalidTokenError

record crypto =
  hashpw :: "string \<Rightarrow> string \<Rightarrow> string"
  checkpw :: "string \<Rightarrow> string \<Rightarrow> bool"
  jwt_encode :: "payload \<Rightarrow> string \<Rightarrow> token"
  jwt_decode :: "token \<Rightarrow> string \<Rightarrow> real \<Rightarrow> jwt_result"




definition create_access_token :: "crypto \<Rightarrow> config \<Rightarrow> real \<Rightarrow> string \<Rightarrow> token" where
  "create_access_token C cfg now user_id =
     jwt_encode C \<lparr>p_user_id = Some user_id, p_exp = now + 3600 * 24 * 7\<rparr> (JWT_SECRET cfg)"

definition get_current_user :: "crypto \<Rightarrow> config \<Rightarrow> db \<Rightarrow> real \<Rightarrow> token \<Rightarrow> error + User" where
  "get_current_user C cfg st now credentials =
     (case jwt_decode C credentials (JWT_SECRET cfg) now of
        ExpiredSignatureError \<Rightarrow> Inl (HTTPException 401 ''Token expired'')
      | InvalidTokenError \<Rightarrow> Inl (HTTPException 401 ''Invalid token'')
      | Decoded p \<Rightarrow>
          (case p_user_id p of
             None \<Rightarrow> Inl (HTTPException 401 ''Invalid token'')
           | Some user_id \<Rightarrow>
               if \<not> truthy_str user_id then Inl (HTTPException 401 ''Invalid token'')
               else (case find (\<lambda>u. usr_id u = user_id) (users st) of
                       None \<Rightarrow> Inl (HTTPException 401 ''User not found'')
                     | Some user_data \<Rightarrow> Inr (User.truncate user_data))))"



section \<open>Request handlers\<close>

text \<open>
  Every handler below runs after \<open>get_current_user\<close> has produced \<open>current_user\<close>.
  A handler that writes returns the store after the request. The hosted chat service is
  a parameter: given the api key, the session id, the system message and the user's
  text, it raises (\<open>Inl\<close> the text of the exception) or returns the generated text.
\<close>

type_synonym llm = "string \<Rightarrow> string \<Rightarrow> string \<Rightarrow> string \<Rightarrow> string + string"






definition get_models :: "db \<Rightarrow> User \<Rightarrow> ModelTraining list" where
  "get_models st current_user =
     to_list 1000 (\<lambda>m. mt_user_id m = usr_id current_user) (model_trainings st)"

definition test_model ::
  "config \<Rightarrow> llm \<Rightarrow> env \<Rightarrow> db \<Rightarrow> User \<Rightarrow> string \<Rightarrow> string \<Rightarrow> error + ModelTestResponse" where
  "test_model cfg chat e st current_user model_id input_text =
     (case find (\<lambda>m. mt_id m = model_id \<and> mt_user_id m = usr_id current_user)
                (model_trainings st) of
        None \<Rightarrow> Inl (HTTPException 404 ''Model not found'')
      | Some model_data \<Rightarrow>
          (case GOOGLE_API_KEY cfg of
             None \<Rightarrow> Inl (HTTPException 500 ''Google API key not configured'')
           | Some key \<Rightarrow>
               if \<not> truthy_str key then Inl (HTTPException 500 ''Google API key not configured'')
               else
                 (case chat key (''test-'' @ model_id) (mt_custom_prompt model_data) input_text of
                    Inl msg \<Rightarrow> Inl (HTTPException 500 (''Error testing model: '' @ msg))
                  | Inr response \<Rightarrow>
                      Inr \<lparr>resp_output = response, resp_confidence = 95 / 100,
                           resp_processing_time = clock2 e - clock e\<rparr>)))"

definition deploy_model :: "env \<Rightarrow> db \<Rightarrow> User \<Rightarrow> string \<Rightarrow> (error + DeployedModel) \<times> db" where
  "deploy_model e st current_user model_id =
     (case find (\<lambda>m. mt_id m = model_id \<and> mt_user_id m = usr_id current_user)
                (model_trainings st) of
        None \<Rightarrow> (Inl (HTTPException 404 ''Model not found''), st)
      | Some model_data \<Rightarrow>
          (let deployment = \<lparr>dm_id = uuid e, dm_name = mt_name model_data @ ''-api'',
                              dm_user_id = usr_id current_user, dm_training_id = model_id,
                              dm_api_endpoint = ''/models/'' @ model_id @ ''/predict'',
                              dm_status = ''active'', dm_usage_count = 0,
                              dm_created_at = clock e\<rparr>
           in (Inr deployment, st\<lparr>deployed_models := deployed_models st @ [deployment]\<rparr>)))"

definition get_deployed_models :: "db \<Rightarrow> User \<Rightarrow> DeployedModel list" where
  "get_deployed_models st current_user =
     to_list 1000 (\<lambda>d. dm_user_id d = usr_id current_user) (deployed_models st)"

definition inc_usage :: "DeployedModel \<Rightarrow> DeployedModel" where
  "inc_usage d = d\<lparr>dm_usage_count := dm_usage_count d + 1\<rparr>"

definition predict ::
  "config \<Rightarrow> llm \<Rightarrow> env \<Rightarrow> db \<Rightarrow> User \<Rightarrow> string \<Rightarrow> string
     \<Rightarrow> (error + ModelTestResponse) \<times> db" where
  "predict cfg chat e st current_user model_id input_text =
     (let st' = st\<lparr>deployed_models :=
                   update_one (\<lambda>d. dm_training_id d = model_id \<and> dm_user_id d = usr_id current_user)
                     inc_usage (deployed_models st)\<rparr>
      in (test_model cfg chat e st' current_user model_id input_text, st'))"

record stats =
  stat_datasets :: nat
  stat_models :: nat
  stat_deployed :: nat
  api_calls :: int

definition get_dashboard_stats :: "db \<Rightarrow> User \<Rightarrow> stats" where
  "get_dashboard_stats st current_user =
     \<lparr>stat_datasets = count_documents (\<lambda>d. ds_user_id d = usr_id current_user) (datasets st),
      stat_models = count_documents (\<lambda>m. mt_user_id m = usr_id current_user) (model_trainings st),
      stat_deployed = count_documents (\<lambda>d. dm_user_id d = usr_id current_user) (deployed_models st),
      api_calls = sum_list (map dm_usage_count
                    (to_list 1000 (\<lambda>d. dm_user_id d = usr_id current_user) (deployed_models st)))\<rparr>"

subsection \<open>Library fixture for concrete runs\<close>

text \<open>
  A stand-in for the libraries on a handful of payloads: decoding ASCII bytes is the
  identity, and \<open>json.loads\<close> is tabulated on the literals used below and raises on
  every other text.
\<close>

definition fixture_loads :: "string \<Rightarrow> string + json" where
  "fixture_loads s =
     (if s = ''[]'' then Inr (JArr [])
      else if s = ''[{\"a\":1},{\"a\":2},{\"a\":3}]''
        then Inr (JArr [JObj [(''a'', JInt 1)], JObj [(''a'', JInt 2)], JObj [(''a'', JInt 3)]])
      else if s = ''{\"a\":1,\"b\":2}'' then Inr (JObj [(''a'', JInt 1), (''b'', JInt 2)])
      else if s = ''[1,2,3]'' then Inr (JArr [JInt 1, JInt 2, JInt 3])
      else if s = ''7'' then Inr (JInt 7)
      else Inl ''Expecting value: line 1 column 1 (char 0)'')"

definition fixture_libs :: libs where
  "fixture_libs =
     \<lparr>utf8_decode = Inr, json_loads = fixture_loads,
      read_csv = (\<lambda>b. Inl ''No columns to parse from file'')\<rparr>"

definition line1_line2 :: string where
  "line1_line2 = ''line1'' @ [CHR 0x0A, CHR 0x0A] @ ''line2''"

text \<open>
  A stricter decoder for byte strings that are not UTF-8. The bytes \<open>caf\xe9\n\<close> are
  Latin-1 text: \<open>0xE9\<close> opens a three-byte sequence that the line feed does not
  continue, and \<open>bytes.decode('utf-8')\<close> raises with the message given here. Other
  byte strings decode to themselves when they are ASCII.
\<close>

definition cafe_latin1 :: string where
  "cafe_latin1 = ''caf'' @ [CHR 0xE9, CHR 0x0A]"

definition strict_decode :: "string \<Rightarrow> string + string" where
  "strict_decode b =
     (if b = cafe_latin1 then
        Inl ([CHR 0x27] @ ''utf-8'' @ [CHR 0x27] @ '' codec can'' @ [CHR 0x27]
             @ ''t decode byte 0xe9 in position 3: invalid continuation byte'')
      else if \<forall>c\<in>set b. (of_char c :: nat) < 128 then Inr b
      else Inl ''invalid start byte'')"

definition strict_libs :: libs where
  "strict_libs =
     \<lparr>utf8_decode = strict_decode, json_loads = fixture_loads,
      read_csv = (\<lambda>b. Inl ''No columns to parse from file'')\<rparr>"

text \<open>Three lines, the middle one a space and a tab; the last one starts with a space.\<close>

definition spaced_lines :: string where
  "spaced_lines = ''a'' @ [CHR 0x0A] @ '' '' @ [CHR 0x09] @ [CHR 0x0A] @ '' b''"

subsection \<open>Store fixture for concrete runs\<close>

text \<open>
  Two users; a dataset and a trained model of the first; one deployment of that model.
  The chat service of the fixture always answers; the fixture's bcrypt keeps a two
  character salt in front of the password, and its tokens are checked symbolically.
\<close>

definition alice :: User where
  "alice = \<lparr>usr_id = ''u1'', usr_email = ''alice@example.com'', usr_name = ''Alice'',
             usr_created_at = 0\<rparr>"

definition bob :: User where
  "bob = \<lparr>usr_id = ''u2'', usr_email = ''bob@example.com'', usr_name = ''Bob'',
           usr_created_at = 1\<rparr>"

definition dataset_d1 :: dataset_doc where
  "dataset_d1 =
     \<lparr>ds_id = ''d1'', ds_name = ''notes'', ds_user_id = ''u1'', ds_file_type = ''txt'',
      ds_file_size = 12, ds_data_preview = [JObj [(''text'', JStr ''line1'')]],
      ds_column_count = 1, ds_row_count = 1, ds_created_at = 2,
      full_data = [JObj [(''text'', JStr ''line1'')]]\<rparr>"

definition model_m1 :: ModelTraining where
  "model_m1 =
     \<lparr>mt_id = ''m1'', mt_name = ''helper'', mt_user_id = ''u1'', mt_dataset_id = ''d1'',
      mt_status = ''completed'', mt_model_type = ''gemini-2.0-flash'',
      mt_custom_prompt = ''Be brief'', mt_training_data = [JObj [(''text'', JStr ''line1'')]],
      mt_created_at = 3, mt_completed_at = Some 3\<rparr>"

definition deployment_p1 :: DeployedModel where
  "deployment_p1 =
     \<lparr>dm_id = ''p1'', dm_name = ''helper-api'', dm_user_id = ''u1'', dm_training_id = ''m1'',
      dm_api_endpoint = ''/models/m1/predict'', dm_status = ''active'', dm_usage_count = 0,
      dm_created_at = 4\<rparr>"

definition db_trained :: db where
  "db_trained =
     \<lparr>users = [User.extend alice \<lparr>usr_password = ''abpw1''\<rparr>,
               User.extend bob \<lparr>usr_password = ''cdpw2''\<rparr>],
      datasets = [dataset_d1], model_trainings = [model_m1], deployed_models = []\<rparr>"

definition db_deployed :: db where
  "db_deployed = db_trained\<lparr>deployed_models := [deployment_p1]\<rparr>"


definition cfg_ready :: config where
  "cfg_ready = \<lparr>JWT_SECRET = ''secret'', GOOGLE_API_KEY = Some ''key''\<rparr>"


definition chat_pong :: llm where
  "chat_pong key session system_message txt = Inr ''pong''"

definition env_a :: env where
  "env_a = \<lparr>uuid = ''p2'', clock = 10, clock2 = 11, salt = ''ab''\<rparr>"

definition deployment_p2 :: DeployedModel where
  "deployment_p2 =
     \<lparr>dm_id = ''p2'', dm_name = ''helper-api'', dm_user_id = ''u1'', dm_training_id = ''m1'',
      dm_api_endpoint = ''/models/m1/predict'', dm_status = ''active'', dm_usage_count = 0,
      dm_created_at = 10\<rparr>"

definition pong :: ModelTestResponse where
  "pong = \<lparr>resp_output = ''pong'', resp_confidence = 95 / 100, resp_processing_time = 1\<rparr>"








text \<open>
  The fixture's \<open>jwt.decode\<close>: any other text and a payload signed under another secret
  are invalid; a payload signed under the secret is expired when its \<open>exp\<close> is not after
  the current time (PyJWT raises when \<open>exp <= now\<close>), and is returned otherwise.
\<close>

definition fixture_decode :: "token \<Rightarrow> string \<Rightarrow> real \<Rightarrow> jwt_result" where
  "fixture_decode tok secret now =
     (case tok of
        Opaque s \<Rightarrow> InvalidTokenError
      | Signed p k \<Rightarrow>
          if k \<noteq> secret then InvalidTokenError
          else if p_exp p \<le> now then ExpiredSignatureError
          else Decoded p)"

definition fixture_crypto :: crypto where
  "fixture_crypto =
     \<lparr>hashpw = (\<lambda>password s. take 2 (s @ ''..'') @ password),
      checkpw = (\<lambda>password hashed. drop 2 hashed = password),
      jwt_encode = Signed,
      jwt_decode = fixture_decode\<rparr>"

section \<open>Properties of the file ingestor\<close>

lemma lower_json: "lower ''json'' = ''json''"
  by (simp add: lower_def lower_char_def)

lemma lower_txt: "lower ''txt'' = ''txt''"
  by (simp add: lower_def lower_char_def)

lemma json_branch:
  "process_uploaded_data L c ''json'' =
     (case utf8_decode L c of
        Inl msg \<Rightarrow> Inl (bad_file msg)
      | Inr s \<Rightarrow> (case json_loads L s of
                    Inl msg \<Rightarrow> Inl (bad_file msg)
                  | Inr d \<Rightarrow> process_json d))"
  by (simp add: process_uploaded_data_def lower_json)

lemma txt_branch:
  "process_uploaded_data L c ''txt'' =
     (case utf8_decode L c of
        Inl msg \<Rightarrow> Inl (bad_file msg)
      | Inr t \<Rightarrow> Inr \<lparr>data = text_rows t, preview = take 5 (text_rows t), column_count = 1,
                      row_count = length (text_rows t)\<rparr>)"
  by (simp add: process_uploaded_data_def lower_txt lower_def lower_char_def Let_def
        split: sum.splits)

lemma split_not_Nil: "split sep s \<noteq> []"
  by (induction s) (auto split: list.splits)

lemma split_pieces_free: "l \<in> set (split sep s) \<Longrightarrow> sep \<notin> set l"
proof (induction s arbitrary: l)
  case Nil
  then show ?case by simp
next
  case (Cons c cs)
  show ?case
  proof (cases "c = sep")
    case True
    with Cons show ?thesis by auto
  next
    case False
    obtain p ps where ps: "split sep cs = p # ps"
      using split_not_Nil [of sep cs] by (cases "split sep cs") auto
    with False Cons.prems have "l = c # p \<or> l \<in> set ps" by auto
    then show ?thesis
    proof
      assume "l = c # p"
      moreover have "sep \<notin> set p" using Cons.IH [of p] ps by simp
      ultimately show ?thesis using False by auto
    next
      assume "l \<in> set ps"
      then show ?thesis using Cons.IH [of l] ps by simp
    qed
  qed
qed

lemma split_rejoin: "concat (map (\<lambda>l. l @ [sep]) (split sep s)) = s @ [sep]"
proof (induction s)
  case Nil
  then show ?case by simp
next
  case (Cons c cs)
  obtain p ps where ps: "split sep cs = p # ps"
    using split_not_Nil [of sep cs] by (cases "split sep cs") auto
  with Cons show ?case by auto
qed

lemma dropWhile_rev_kept:
  assumes "xs = [] \<or> \<not> P (hd xs)"
  shows "dropWhile P (rev xs) \<noteq> [] \<longleftrightarrow> xs \<noteq> []"
proof (cases xs)
  case Nil
  then show ?thesis by simp
next
  case (Cons a as)
  with assms have "\<not> P a" by simp
  then have "\<exists>c\<in>set (rev xs). \<not> P c" using Cons by auto
  then have "dropWhile P (rev xs) \<noteq> []"
    unfolding dropWhile_eq_Nil_conv by blast
  then show ?thesis using Cons by simp
qed

lemma strip_truthy: "truthy_str (strip l) \<longleftrightarrow> (\<exists>c\<in>set l. \<not> isspace c)"
proof -
  define d where "d = dropWhile isspace l"
  have a: "d \<noteq> [] \<longleftrightarrow> (\<exists>c\<in>set l. \<not> isspace c)"
    unfolding d_def dropWhile_eq_Nil_conv by blast
  have "d = [] \<or> \<not> isspace (hd d)"
    unfolding d_def using hd_dropWhile [of isspace l] by blast
  then have b: "dropWhile isspace (rev d) \<noteq> [] \<longleftrightarrow> d \<noteq> []"
    by (rule dropWhile_rev_kept)
  have "truthy_str (strip l) \<longleftrightarrow> dropWhile isspace (rev d) \<noteq> []"
    unfolding strip_def truthy_str_def d_def by simp
  with a b show ?thesis by blast
qed

lemma text_rows_alt:
  "text_rows t =
     map (\<lambda>l. JObj [(''text'', JStr l)])
         (filter (\<lambda>l. \<exists>c\<in>set l. \<not> isspace c) (split (CHR 0x0A) t))"
  by (simp add: text_rows_def strip_truthy)


lemma len_keys_dict: "len_keys (JObj kvs) = Inr (card (fst ` set kvs))"
  by (simp add: length_remdups_card_conv)

lemma len_keys_other: "\<not> is_dict v \<Longrightarrow> \<exists>msg. len_keys v = Inl msg"
  by (cases v) simp_all

lemma process_json_list:
  "process_json (JArr xs) =
     (case (if xs \<noteq> [] then len_keys (hd xs) else Inr 0) of
        Inl msg \<Rightarrow> Inl (bad_file msg)
      | Inr n \<Rightarrow> Inr \<lparr>data = xs, preview = take 5 xs, column_count = n,
                      row_count = length xs\<rparr>)"
  by (simp add: process_json_def)

lemma process_json_scalar:
  "\<not> is_dict d \<Longrightarrow> \<forall>xs. d \<noteq> JArr xs \<Longrightarrow> \<exists>m. process_json d = Inl (HTTPException 400 m)"
  by (cases d) (simp_all add: process_json_def bad_file_def)

lemma json_undecodable:
  "utf8_decode L c = Inl msg \<Longrightarrow>
   process_uploaded_data L c ''json'' = Inl (HTTPException 400 (''Error processing file: '' @ msg))"
  by (simp add: json_branch bad_file_def)

lemma txt_undecodable:
  "utf8_decode L c = Inl msg \<Longrightarrow>
   process_uploaded_data L c ''txt'' = Inl (HTTPException 400 (''Error processing file: '' @ msg))"
  by (simp add: txt_branch bad_file_def)

lemma isspace_code_points:
  "isspace c \<longleftrightarrow> (of_char c :: nat) \<in> {9, 10, 11, 12, 13, 28, 29, 30, 31, 32, 133, 160}"
proof -
  have "\<And>n::nat. ((9 \<le> n \<and> n \<le> 13) \<or> (28 \<le> n \<and> n \<le> 32) \<or> n = 133 \<or> n = 160)
          \<longleftrightarrow> n \<in> {9, 10, 11, 12, 13, 28, 29, 30, 31, 32, 133, 160}"
    by (simp only: insert_iff empty_iff) arith
  then show ?thesis by (simp add: isspace_def Let_def)
qed

lemma text_rows_code_points:
  "text_rows t =
     map (\<lambda>l. JObj [(''text'', JStr l)])
         (filter (\<lambda>l. \<exists>c\<in>set l. (of_char c :: nat) \<notin> {9, 10, 11, 12, 13, 28, 29, 30, 31, 32, 133, 160})
            (split (CHR 0x0A) t))"
  unfolding text_rows_alt isspace_code_points ..

lemma spaced_lines_rows:
  "text_rows spaced_lines = [JObj [(''text'', JStr ''a'')], JObj [(''text'', JStr '' b'')]]"
  by (simp add: text_rows_def spaced_lines_def strip_def isspace_def truthy_str_def)

lemma line1_line2_rows:
  "text_rows line1_line2 = [JObj [(''text'', JStr ''line1'')], JObj [(''text'', JStr ''line2'')]]"
  by (simp add: text_rows_def line1_line2_def strip_def isspace_def truthy_str_def)

text \<open>
  C6. A json upload whose payload parses as a list of objects yields rows = that list,
  row_count = its length, column_count = the key count of the first element (zero for
  the empty list) and preview = the first five rows; a payload that parses as a single
  object yields that one object as the only row, row_count = 1 and column_count = its
  key count; a payload whose bytes do not decode, or whose text does not parse, fails
  with status 400. The list of three objects with the one key \<open>a\<close> yields
  column_count = 1 and row_count = 3.
\<close>

theorem json_upload_shape:
  "(utf8_decode L content = Inr s \<and> json_loads L s = Inr (JArr xs) \<and> list_all is_dict xs \<longrightarrow>
      process_uploaded_data L content ''json'' =
        Inr \<lparr>data = xs, preview = take 5 xs,
             column_count = (case xs of [] \<Rightarrow> 0
                             | x # rest \<Rightarrow> (case x of JObj kvs \<Rightarrow> card (fst ` set kvs) | _ \<Rightarrow> 0)),
             row_count = length xs\<rparr>)
   \<and> (utf8_decode L content = Inr s \<and> json_loads L s = Inr (JObj kvs) \<longrightarrow>
      process_uploaded_data L content ''json'' =
        Inr \<lparr>data = [JObj kvs], preview = [JObj kvs],
             column_count = card (fst ` set kvs), row_count = 1\<rparr>)
   \<and> (utf8_decode L content = Inr s \<and> json_loads L s = Inl msg \<longrightarrow>
      process_uploaded_data L content ''json'' =
        Inl (HTTPException 400 (''Error processing file: '' @ msg)))
   \<and> (utf8_decode L content = Inl msg \<longrightarrow>
      process_uploaded_data L content ''json'' =
        Inl (HTTPException 400 (''Error processing file: '' @ msg)))
   \<and> (utf8_decode L content = Inr s \<and> json_loads L s =
        Inr (JArr [JObj [(''a'', JInt 1)], JObj [(''a'', JInt 2)], JObj [(''a'', JInt 3)]]) \<longrightarrow>
      (\<exists>r. process_uploaded_data L content ''json'' = Inr r
           \<and> column_count r = 1 \<and> row_count r = 3))"
proof (intro conjI impI)
  assume h: "utf8_decode L content = Inr s \<and> json_loads L s = Inr (JArr xs) \<and> list_all is_dict xs"
  show "process_uploaded_data L content ''json'' =
          Inr \<lparr>data = xs, preview = take 5 xs,
               column_count = (case xs of [] \<Rightarrow> 0
                               | x # rest \<Rightarrow> (case x of JObj kvs \<Rightarrow> card (fst ` set kvs) | _ \<Rightarrow> 0)),
               row_count = length xs\<rparr>"
  proof (cases xs)
    case Nil
    with h show ?thesis by (simp add: json_branch process_json_list)
  next
    case (Cons x rest)
    with h obtain kvs where "x = JObj kvs" by (cases x) auto
    with Cons h show ?thesis
      by (simp add: json_branch process_json_list length_remdups_card_conv)
  qed
next
  assume "utf8_decode L content = Inr s \<and> json_loads L s = Inr (JObj kvs)"
  then show "process_uploaded_data L content ''json'' =
      Inr \<lparr>data = [JObj kvs], preview = [JObj kvs],
           column_count = card (fst ` set kvs), row_count = 1\<rparr>"
    by (simp add: json_branch process_json_def length_remdups_card_conv)
next
  assume "utf8_decode L content = Inr s \<and> json_loads L s = Inl msg"
  then show "process_uploaded_data L content ''json'' =
      Inl (HTTPException 400 (''Error processing file: '' @ msg))"
    by (simp add: json_branch bad_file_def)
next
  assume "utf8_decode L content = Inl msg"
  then show "process_uploaded_data L content ''json'' =
      Inl (HTTPException 400 (''Error processing file: '' @ msg))"
    by (rule json_undecodable)
next
  assume "utf8_decode L content = Inr s \<and> json_loads L s =
      Inr (JArr [JObj [(''a'', JInt 1)], JObj [(''a'', JInt 2)], JObj [(''a'', JInt 3)]])"
  then show "\<exists>r. process_uploaded_data L content ''json'' = Inr r
      \<and> column_count r = 1 \<and> row_count r = 3"
    by (simp add: json_branch process_json_list)
qed

theorem json_upload_shape_witness:
  "process_uploaded_data strict_libs ''[{\"a\":1},{\"a\":2},{\"a\":3}]'' ''json'' =
     Inr \<lparr>data = [JObj [(''a'', JInt 1)], JObj [(''a'', JInt 2)], JObj [(''a'', JInt 3)]],
          preview = [JObj [(''a'', JInt 1)], JObj [(''a'', JInt 2)], JObj [(''a'', JInt 3)]],
          column_count = 1, row_count = 3\<rparr>
   \<and> process_uploaded_data strict_libs ''{\"a\":1,\"b\":2}'' ''json'' =
     Inr \<lparr>data = [JObj [(''a'', JInt 1), (''b'', JInt 2)]],
          preview = [JObj [(''a'', JInt 1), (''b'', JInt 2)]],
          column_count = 2, row_count = 1\<rparr>
   \<and> process_uploaded_data strict_libs ''not json'' ''json'' =
     Inl (HTTPException 400
            (''Error processing file: '' @ ''Expecting value: line 1 column 1 (char 0)''))
   \<and> status_code (projl (process_uploaded_data strict_libs cafe_latin1 ''json'')) = 400
   \<and> isl (process_uploaded_data strict_libs cafe_latin1 ''json'')"
proof -
  have d1: "utf8_decode strict_libs ''[{\"a\":1},{\"a\":2},{\"a\":3}]''
              = Inr ''[{\"a\":1},{\"a\":2},{\"a\":3}]''"
    by (simp add: strict_libs_def strict_decode_def cafe_latin1_def)
  have l1: "json_loads strict_libs ''[{\"a\":1},{\"a\":2},{\"a\":3}]'' =
              Inr (JArr [JObj [(''a'', JInt 1)], JObj [(''a'', JInt 2)], JObj [(''a'', JInt 3)]])"
    by (simp add: strict_libs_def fixture_loads_def)
  have d2: "utf8_decode strict_libs ''{\"a\":1,\"b\":2}'' = Inr ''{\"a\":1,\"b\":2}''"
    by (simp add: strict_libs_def strict_decode_def cafe_latin1_def)
  have l2: "json_loads strict_libs ''{\"a\":1,\"b\":2}'' = Inr (JObj [(''a'', JInt 1), (''b'', JInt 2)])"
    by (simp add: strict_libs_def fixture_loads_def)
  have d3: "utf8_decode strict_libs ''not json'' = Inr ''not json''"
    by (simp add: strict_libs_def strict_decode_def cafe_latin1_def)
  have l3: "json_loads strict_libs ''not json'' = Inl ''Expecting value: line 1 column 1 (char 0)''"
    by (simp add: strict_libs_def fixture_loads_def)
  obtain m where d4: "utf8_decode strict_libs cafe_latin1 = Inl m"
    by (simp add: strict_libs_def strict_decode_def)
  have k: "card (fst ` set [(''a'', JInt 1), (''b'', JInt 2)]) = 2" by simp
  show ?thesis
    using json_upload_shape [of strict_libs "''[{\"a\":1},{\"a\":2},{\"a\":3}]''"
            "''[{\"a\":1},{\"a\":2},{\"a\":3}]''"
            "[JObj [(''a'', JInt 1)], JObj [(''a'', JInt 2)], JObj [(''a'', JInt 3)]]"]
          json_upload_shape [of strict_libs "''{\"a\":1,\"b\":2}''" "''{\"a\":1,\"b\":2}''" _
            "[(''a'', JInt 1), (''b'', JInt 2)]"]
          json_upload_shape [of strict_libs "''not json''" "''not json''" _ _
            "''Expecting value: line 1 column 1 (char 0)''"]
          json_upload_shape [of strict_libs cafe_latin1 _ _ _ m]
          d1 l1 d2 l2 d3 l3 d4 k
    by simp
qed

text \<open>
  C7 as stated: every txt upload yields one record per non-blank line with
  column_count = 1. An upload whose bytes are not UTF-8 yields no records at all: the
  decoding raises and the handler answers with status 400.
\<close>

theorem txt_undecodable_rejected:
  "process_uploaded_data strict_libs cafe_latin1 ''txt'' =
     Inl (HTTPException 400
            (''Error processing file: '' @ [CHR 0x27] @ ''utf-8'' @ [CHR 0x27] @ '' codec can''
             @ [CHR 0x27] @ ''t decode byte 0xe9 in position 3: invalid continuation byte''))"
  by (simp add: txt_branch bad_file_def strict_libs_def strict_decode_def)

text \<open>
  C7, amended. A txt upload whose bytes decode as UTF-8 is split at every line feed: the
  pieces contain no line feed and, joined again, give back the text. Every piece that
  has a character other than whitespace (code points 9 to 13, 28 to 32, 133 and 160)
  becomes the record \<open>{text: piece}\<close>, unchanged and in order; pieces that are empty or
  all whitespace are skipped; column_count is 1 and row_count is the number of pieces
  kept. The text \<open>line1\n\nline2\<close> yields row_count = 2. A txt upload whose bytes do not
  decode fails with status 400.
\<close>

theorem txt_upload_shape:
  "(utf8_decode L content = Inr t \<longrightarrow>
      process_uploaded_data L content ''txt'' =
        Inr \<lparr>data = map (\<lambda>l. JObj [(''text'', JStr l)])
                     (filter (\<lambda>l. \<exists>c\<in>set l. (of_char c :: nat) \<notin>
                                 {9, 10, 11, 12, 13, 28, 29, 30, 31, 32, 133, 160})
                        (split (CHR 0x0A) t)),
             preview = take 5 (map (\<lambda>l. JObj [(''text'', JStr l)])
                     (filter (\<lambda>l. \<exists>c\<in>set l. (of_char c :: nat) \<notin>
                                 {9, 10, 11, 12, 13, 28, 29, 30, 31, 32, 133, 160})
                        (split (CHR 0x0A) t))),
             column_count = 1,
             row_count = length
                     (filter (\<lambda>l. \<exists>c\<in>set l. (of_char c :: nat) \<notin>
                                 {9, 10, 11, 12, 13, 28, 29, 30, 31, 32, 133, 160})
                        (split (CHR 0x0A) t))\<rparr>
      \<and> concat (map (\<lambda>l. l @ [CHR 0x0A]) (split (CHR 0x0A) t)) = t @ [CHR 0x0A]
      \<and> (\<forall>l\<in>set (split (CHR 0x0A) t). CHR 0x0A \<notin> set l)
      \<and> (t = line1_line2 \<longrightarrow>
           (\<exists>r. process_uploaded_data L content ''txt'' = Inr r \<and> row_count r = 2)))
   \<and> (utf8_decode L content = Inl msg \<longrightarrow>
      process_uploaded_data L content ''txt'' =
        Inl (HTTPException 400 (''Error processing file: '' @ msg)))"
proof (intro conjI impI)
  assume d: "utf8_decode L content = Inr t"
  then have "process_uploaded_data L content ''txt'' =
      Inr \<lparr>data = text_rows t, preview = take 5 (text_rows t), column_count = 1,
           row_count = length (text_rows t)\<rparr>"
    by (simp add: txt_branch)
  then show "process_uploaded_data L content ''txt'' =
        Inr \<lparr>data = map (\<lambda>l. JObj [(''text'', JStr l)])
                     (filter (\<lambda>l. \<exists>c\<in>set l. (of_char c :: nat) \<notin>
                                 {9, 10, 11, 12, 13, 28, 29, 30, 31, 32, 133, 160})
                        (split (CHR 0x0A) t)),
             preview = take 5 (map (\<lambda>l. JObj [(''text'', JStr l)])
                     (filter (\<lambda>l. \<exists>c\<in>set l. (of_char c :: nat) \<notin>
                                 {9, 10, 11, 12, 13, 28, 29, 30, 31, 32, 133, 160})
                        (split (CHR 0x0A) t))),
             column_count = 1,
             row_count = length
                     (filter (\<lambda>l. \<exists>c\<in>set l. (of_char c :: nat) \<notin>
                                 {9, 10, 11, 12, 13, 28, 29, 30, 31, 32, 133, 160})
                        (split (CHR 0x0A) t))\<rparr>"
    unfolding text_rows_code_points by simp
next
  show "concat (map (\<lambda>l. l @ [CHR 0x0A]) (split (CHR 0x0A) t)) = t @ [CHR 0x0A]"
    by (rule split_rejoin)
next
  show "\<forall>l\<in>set (split (CHR 0x0A) t). CHR 0x0A \<notin> set l"
    using split_pieces_free by blast
next
  assume "utf8_decode L content = Inr t" and "t = line1_line2"
  then show "\<exists>r. process_uploaded_data L content ''txt'' = Inr r \<and> row_count r = 2"
    by (simp add: txt_branch line1_line2_rows)
next
  assume "utf8_decode L content = Inl msg"
  then show "process_uploaded_data L content ''txt'' =
      Inl (HTTPException 400 (''Error processing file: '' @ msg))"
    by (rule txt_undecodable)
qed

theorem txt_upload_shape_witness:
  "process_uploaded_data strict_libs line1_line2 ''txt'' =
     Inr \<lparr>data = [JObj [(''text'', JStr ''line1'')], JObj [(''text'', JStr ''line2'')]],
          preview = [JObj [(''text'', JStr ''line1'')], JObj [(''text'', JStr ''line2'')]],
          column_count = 1, row_count = 2\<rparr>
   \<and> process_uploaded_data strict_libs spaced_lines ''txt'' =
     Inr \<lparr>data = [JObj [(''text'', JStr ''a'')], JObj [(''text'', JStr '' b'')]],
          preview = [JObj [(''text'', JStr ''a'')], JObj [(''text'', JStr '' b'')]],
          column_count = 1, row_count = 2\<rparr>
   \<and> isl (process_uploaded_data strict_libs cafe_latin1 ''txt'')"
proof -
  have d1: "utf8_decode strict_libs line1_line2 = Inr line1_line2"
    by (simp add: strict_libs_def strict_decode_def cafe_latin1_def line1_line2_def)
  have d2: "utf8_decode strict_libs spaced_lines = Inr spaced_lines"
    by (simp add: strict_libs_def strict_decode_def cafe_latin1_def spaced_lines_def)
  obtain m where d3: "utf8_decode strict_libs cafe_latin1 = Inl m"
    by (simp add: strict_libs_def strict_decode_def)
  have f1: "filter (\<lambda>l. \<exists>c\<in>set l. (of_char c :: nat) \<notin>
                      {9, 10, 11, 12, 13, 28, 29, 30, 31, 32, 133, 160})
              (split (CHR 0x0A) line1_line2) = [''line1'', ''line2'']"
    by (simp add: line1_line2_def)
  have f2: "filter (\<lambda>l. \<exists>c\<in>set l. (of_char c :: nat) \<notin>
                      {9, 10, 11, 12, 13, 28, 29, 30, 31, 32, 133, 160})
              (split (CHR 0x0A) spaced_lines) = [''a'', '' b'']"
    by (simp add: spaced_lines_def)
  show ?thesis
    using txt_upload_shape [of strict_libs line1_line2 line1_line2]
          txt_upload_shape [of strict_libs spaced_lines spaced_lines]
          txt_upload_shape [of strict_libs cafe_latin1 _ m]
          d1 d2 d3 f1 f2
    by simp
qed

text \<open>
  C10 as stated: a well-formed json payload whose top-level value is neither an object
  nor a list whose first element is an object is refused with status 400. The empty
  list is such a value, and it is accepted with no rows and no columns.
\<close>

theorem json_empty_list_accepted:
  "process_uploaded_data fixture_libs ''[]'' ''json'' =
     Inr \<lparr>data = [], preview = [], column_count = 0, row_count = 0\<rparr>"
  by (simp add: json_branch process_json_list fixture_libs_def fixture_loads_def)

text \<open>
  C10, amended. A well-formed json payload whose top-level value is not an object, not
  the empty list, and not a list whose first element is an object is refused with
  status 400.
\<close>

theorem json_shape_rejected:
  assumes "utf8_decode L content = Inr s"
      and "json_loads L s = Inr d"
      and "\<not> is_dict d"
      and "d \<noteq> JArr []"
      and "\<forall>x xs. d = JArr (x # xs) \<longrightarrow> \<not> is_dict x"
  shows "\<exists>m. process_uploaded_data L content ''json'' = Inl (HTTPException 400 m)"
proof (cases "\<exists>xs. d = JArr xs")
  case True
  then obtain xs where xs: "d = JArr xs" by blast
  with assms(4) obtain x rest where c: "xs = x # rest" by (cases xs) auto
  with xs assms(5) have "\<not> is_dict x" by blast
  then obtain msg where "len_keys x = Inl msg" using len_keys_other by blast
  with xs c assms(1,2) show ?thesis
    by (simp add: json_branch process_json_list bad_file_def)
next
  case False
  with assms(3) obtain m where "process_json d = Inl (HTTPException 400 m)"
    using process_json_scalar by blast
  with assms(1,2) show ?thesis by (simp add: json_branch)
qed

theorem json_shape_rejected_witness:
  "(\<exists>m. process_uploaded_data fixture_libs ''[1,2,3]'' ''json'' = Inl (HTTPException 400 m))
   \<and> (\<exists>m. process_uploaded_data fixture_libs ''7'' ''json'' = Inl (HTTPException 400 m))"
proof
  have d: "utf8_decode fixture_libs ''[1,2,3]'' = Inr ''[1,2,3]''"
    by (simp add: fixture_libs_def)
  have l: "json_loads fixture_libs ''[1,2,3]'' = Inr (JArr [JInt 1, JInt 2, JInt 3])"
    by (simp add: fixture_libs_def fixture_loads_def)
  show "\<exists>m. process_uploaded_data fixture_libs ''[1,2,3]'' ''json'' = Inl (HTTPException 400 m)"
    using json_shape_rejected [OF d l] by simp
next
  have d: "utf8_decode fixture_libs ''7'' = Inr ''7''"
    by (simp add: fixture_libs_def)
  have l: "json_loads fixture_libs ''7'' = Inr (JInt 7)"
    by (simp add: fixture_libs_def fixture_loads_def)
  show "\<exists>m. process_uploaded_data fixture_libs ''7'' ''json'' = Inl (HTTPException 400 m)"
    using json_shape_rejected [OF d l] by simp
qed


section \<open>Properties of the request handlers\<close>

subsection \<open>The first match of \<open>update_one\<close>\<close>

lemma update_one_no_match: "\<forall>x\<in>set xs. \<not> P x \<Longrightarrow> update_one P f xs = xs"
  by (induction xs) auto


lemma update_one_append:
  "\<forall>x\<in>set xs. \<not> P x \<Longrightarrow> update_one P f (xs @ ys) = xs @ update_one P f ys"
  by (induction xs) auto

lemma update_one_first:
  "find P xs = Some x \<Longrightarrow>
     \<exists>i<length xs. xs ! i = x \<and> (\<forall>j<i. \<not> P (xs ! j)) \<and> update_one P f xs = xs[i := f x]"
proof (induction xs)
  case Nil
  then show ?case by simp
next
  case (Cons a as)
  show ?case
  proof (cases "P a")
    case True
    with Cons.prems have "a = x" by simp
    with True show ?thesis by (intro exI [of _ 0]) simp
  next
    case False
    with Cons.prems have "find P as = Some x" by simp
    from Cons.IH [OF this] obtain i where i: "i < length as" "as ! i = x"
      "\<forall>j<i. \<not> P (as ! j)" "update_one P f as = as[i := f x]" by blast
    have "\<forall>j<Suc i. \<not> P ((a # as) ! j)"
    proof (intro allI impI)
      fix j assume "j < Suc i"
      then show "\<not> P ((a # as) ! j)" using False i(3) by (cases j) auto
    qed
    with i False show ?thesis by (intro exI [of _ "Suc i"]) simp
  qed
qed



lemma test_model_reads_trainings:
  "model_trainings st' = model_trainings st \<Longrightarrow>
   test_model cfg chat e st' cu mid inp = test_model cfg chat e st cu mid inp"
  by (simp add: test_model_def)

lemma test_model_404:
  "test_model cfg chat e st cu mid inp = Inl (HTTPException 404 ''Model not found'') \<longleftrightarrow>
   find (\<lambda>m. mt_id m = mid \<and> mt_user_id m = usr_id cu) (model_trainings st) = None"
  by (auto simp add: test_model_def split: option.splits sum.splits)

text \<open>
  C1. Predict first increments the usage counter of the caller's first deployment of the
  model, when there is one, and then answers exactly as Test does. The existence of a
  deployment is not a precondition: with no deployment the store is left as it was and
  the answer is still that of Test, which is NotFound exactly when the caller owns no
  training record with that identifier.
\<close>

theorem predict_then_test:
  "fst (predict cfg chat e st cu mid inp) = test_model cfg chat e st cu mid inp
   \<and> users (snd (predict cfg chat e st cu mid inp)) = users st
   \<and> datasets (snd (predict cfg chat e st cu mid inp)) = datasets st
   \<and> model_trainings (snd (predict cfg chat e st cu mid inp)) = model_trainings st
   \<and> (find (\<lambda>d. dm_training_id d = mid \<and> dm_user_id d = usr_id cu) (deployed_models st) = None
        \<longrightarrow> snd (predict cfg chat e st cu mid inp) = st)
   \<and> (\<forall>d. find (\<lambda>d. dm_training_id d = mid \<and> dm_user_id d = usr_id cu) (deployed_models st) = Some d
        \<longrightarrow> (\<exists>i<length (deployed_models st).
               deployed_models st ! i = d
             \<and> (\<forall>j<i. \<not> (dm_training_id (deployed_models st ! j) = mid
                         \<and> dm_user_id (deployed_models st ! j) = usr_id cu))
             \<and> deployed_models (snd (predict cfg chat e st cu mid inp)) =
                 (deployed_models st)[i := d\<lparr>dm_usage_count := dm_usage_count d + 1\<rparr>]))
   \<and> (fst (predict cfg chat e st cu mid inp) = Inl (HTTPException 404 ''Model not found'')
        \<longleftrightarrow> find (\<lambda>m. mt_id m = mid \<and> mt_user_id m = usr_id cu) (model_trainings st) = None)"
proof -
  let ?P = "\<lambda>d. dm_training_id d = mid \<and> dm_user_id d = usr_id cu"
  let ?st' = "st\<lparr>deployed_models := update_one ?P inc_usage (deployed_models st)\<rparr>"
  have p: "predict cfg chat e st cu mid inp = (test_model cfg chat e ?st' cu mid inp, ?st')"
    by (simp add: predict_def Let_def)
  have t: "test_model cfg chat e ?st' cu mid inp = test_model cfg chat e st cu mid inp"
    by (rule test_model_reads_trainings) simp
  have none: "find ?P (deployed_models st) = None \<longrightarrow> ?st' = st"
  proof
    assume "find ?P (deployed_models st) = None"
    then have "\<forall>x\<in>set (deployed_models st). \<not> ?P x" by (simp add: find_None_iff)
    then have "update_one ?P inc_usage (deployed_models st) = deployed_models st"
      by (rule update_one_no_match)
    then show "?st' = st" by simp
  qed
  have some: "\<forall>d. find ?P (deployed_models st) = Some d \<longrightarrow>
        (\<exists>i<length (deployed_models st). deployed_models st ! i = d
           \<and> (\<forall>j<i. \<not> ?P (deployed_models st ! j))
           \<and> deployed_models ?st' = (deployed_models st)[i := d\<lparr>dm_usage_count := dm_usage_count d + 1\<rparr>])"
  proof (intro allI impI)
    fix d assume "find ?P (deployed_models st) = Some d"
    from update_one_first [OF this, of inc_usage]
    show "\<exists>i<length (deployed_models st). deployed_models st ! i = d
           \<and> (\<forall>j<i. \<not> ?P (deployed_models st ! j))
           \<and> deployed_models ?st' = (deployed_models st)[i := d\<lparr>dm_usage_count := dm_usage_count d + 1\<rparr>]"
      by (simp add: inc_usage_def)
  qed
  show ?thesis
    unfolding p fst_conv snd_conv t test_model_404
    using none some by simp
qed

theorem predict_then_test_witness:
  "fst (predict cfg_ready chat_pong env_a db_deployed alice ''m1'' ''ping'') =
     test_model cfg_ready chat_pong env_a db_deployed alice ''m1'' ''ping''
   \<and> deployed_models (snd (predict cfg_ready chat_pong env_a db_deployed alice ''m1'' ''ping'')) =
       [deployment_p1\<lparr>dm_usage_count := 1\<rparr>]
   \<and> snd (predict cfg_ready chat_pong env_a db_trained bob ''m1'' ''ping'') = db_trained
   \<and> fst (predict cfg_ready chat_pong env_a db_trained bob ''m1'' ''ping'') =
       Inl (HTTPException 404 ''Model not found'')"
proof -
  have f: "find (\<lambda>d. dm_training_id d = ''m1'' \<and> dm_user_id d = usr_id alice)
             (deployed_models db_deployed) = Some deployment_p1"
    by (simp add: db_deployed_def db_trained_def deployment_p1_def alice_def)
  have l: "deployed_models db_deployed = [deployment_p1]"
    by (simp add: db_deployed_def db_trained_def)
  have u: "dm_usage_count deployment_p1 = 0" by (simp add: deployment_p1_def)
  have n: "find (\<lambda>d. dm_training_id d = ''m1'' \<and> dm_user_id d = usr_id bob)
             (deployed_models db_trained) = None"
    by (simp add: db_trained_def)
  have m: "find (\<lambda>m. mt_id m = ''m1'' \<and> mt_user_id m = usr_id bob)
             (model_trainings db_trained) = None"
    by (simp add: db_trained_def model_m1_def bob_def)
  show ?thesis
    using predict_then_test [of cfg_ready chat_pong env_a db_deployed alice "''m1''" "''ping''"]
          predict_then_test [of cfg_ready chat_pong env_a db_trained bob "''m1''" "''ping''"]
          f l u n m
    by auto
qed

text \<open>
  C1 as stated: Predict on a model with no deployment of the caller fails with NotFound.
  In the fixture the first user owns the model \<open>m1\<close> and nothing is deployed; Predict
  answers with the generated text.
\<close>

theorem predict_without_deployment:
  "predict cfg_ready chat_pong env_a db_trained alice ''m1'' ''ping'' =
     (Inr \<lparr>resp_output = ''pong'', resp_confidence = 95 / 100, resp_processing_time = 1\<rparr>,
      db_trained)"
  by (simp add: predict_def test_model_def db_trained_def model_m1_def alice_def cfg_ready_def
        chat_pong_def env_a_def truthy_str_def)








lemma deploy_model_success:
  assumes "deploy_model e st cu mid = (Inr dep, st1)"
  shows "dm_usage_count dep = 0 \<and> dm_training_id dep = mid \<and> dm_user_id dep = usr_id cu
       \<and> dm_id dep = uuid e
       \<and> st1 = st\<lparr>deployed_models := deployed_models st @ [dep]\<rparr>"
  using assms by (auto simp add: deploy_model_def Let_def split: option.splits)

lemma predict_store:
  assumes "predict cfg chat e st cu mid inp = (r, st')"
  shows "st' = st\<lparr>deployed_models :=
            update_one (\<lambda>d. dm_training_id d = mid \<and> dm_user_id d = usr_id cu) inc_usage
              (deployed_models st)\<rparr>"
  using assms by (auto simp add: predict_def Let_def)

lemma update_one_last:
  assumes "\<forall>x\<in>set xs. \<not> P x" and "P y"
  shows "update_one P f (xs @ [y]) = xs @ [f y]"
  using assms by (simp add: update_one_append)

lemma to_list_snoc:
  assumes "length (filter Q xs) < n" and "Q y"
  shows "to_list n Q (xs @ [y]) = to_list n Q xs @ [y]"
  using assms by (simp add: to_list_def)

text \<open>
  C4, amended. Let the caller have no deployment of the model yet. After a successful
  Deploy, whose record starts with usage_count = 0, and two successful Predict calls,
  the deployments are the earlier ones followed by the new record with
  usage_count = 2. If the caller had fewer than 1000 deployments before, api_calls in
  the dashboard statistics is 2 more than before the Deploy, and it is exactly 2 when
  the caller had no deployment at all.
\<close>

theorem deploy_predict_twice:
  assumes none: "\<forall>d\<in>set (deployed_models st). \<not> (dm_training_id d = mid \<and> dm_user_id d = usr_id cu)"
      and dep: "deploy_model e0 st cu mid = (Inr dep, st1)"
      and p1: "predict cfg chat1 e1 st1 cu mid inp1 = (Inr r1, st2)"
      and p2: "predict cfg chat2 e2 st2 cu mid inp2 = (Inr r2, st3)"
  shows "dm_usage_count dep = 0
       \<and> deployed_models st3 = deployed_models st @ [dep\<lparr>dm_usage_count := 2\<rparr>]
       \<and> (count_documents (\<lambda>d. dm_user_id d = usr_id cu) (deployed_models st) < 1000 \<longrightarrow>
            api_calls (get_dashboard_stats st3 cu) = api_calls (get_dashboard_stats st cu) + 2)
       \<and> ((\<forall>d\<in>set (deployed_models st). dm_user_id d \<noteq> usr_id cu) \<longrightarrow>
            api_calls (get_dashboard_stats st3 cu) = 2)"
proof -
  let ?P = "\<lambda>d. dm_training_id d = mid \<and> dm_user_id d = usr_id cu"
  let ?Q = "\<lambda>d. dm_user_id d = usr_id cu"
  let ?ds = "deployed_models st"
  from deploy_model_success [OF dep]
  have u0: "dm_usage_count dep = 0" and Pd: "?P dep"
    and s1: "deployed_models st1 = ?ds @ [dep]" by simp_all
  have P1: "?P (inc_usage dep)" using Pd by (simp add: inc_usage_def)
  have s2: "deployed_models st2 = ?ds @ [inc_usage dep]"
    using predict_store [OF p1] s1 update_one_last [OF none Pd, of inc_usage] by simp
  have s3: "deployed_models st3 = ?ds @ [inc_usage (inc_usage dep)]"
    using predict_store [OF p2] s2 update_one_last [OF none P1, of inc_usage] by simp
  have two: "inc_usage (inc_usage dep) = dep\<lparr>dm_usage_count := 2\<rparr>"
    using u0 by (simp add: inc_usage_def)
  have final: "deployed_models st3 = ?ds @ [dep\<lparr>dm_usage_count := 2\<rparr>]"
    using s3 two by simp
  have Q2: "?Q (dep\<lparr>dm_usage_count := 2\<rparr>)" using Pd by simp
  have rel: "count_documents ?Q ?ds < 1000 \<longrightarrow>
        api_calls (get_dashboard_stats st3 cu) = api_calls (get_dashboard_stats st cu) + 2"
  proof
    assume "count_documents ?Q ?ds < 1000"
    then have "length (filter ?Q ?ds) < 1000" by (simp add: count_documents_def)
    from to_list_snoc [OF this Q2]
    show "api_calls (get_dashboard_stats st3 cu) = api_calls (get_dashboard_stats st cu) + 2"
      by (simp add: get_dashboard_stats_def final)
  qed
  have abs: "(\<forall>d\<in>set ?ds. \<not> ?Q d) \<longrightarrow> api_calls (get_dashboard_stats st3 cu) = 2"
  proof
    assume a: "\<forall>d\<in>set ?ds. \<not> ?Q d"
    then have f: "filter ?Q ?ds = []" by (simp add: filter_empty_conv)
    then have "to_list 1000 ?Q (?ds @ [dep\<lparr>dm_usage_count := 2\<rparr>]) = [dep\<lparr>dm_usage_count := 2\<rparr>]"
      using Q2 by (simp add: to_list_def)
    then show "api_calls (get_dashboard_stats st3 cu) = 2"
      by (simp add: get_dashboard_stats_def final)
  qed
  from u0 final rel abs show ?thesis by blast
qed

theorem deploy_predict_twice_witness:
  "deployed_models
     (snd (predict cfg_ready chat_pong env_a
        (snd (predict cfg_ready chat_pong env_a
           (snd (deploy_model env_a db_trained alice ''m1'')) alice ''m1'' ''ping''))
        alice ''m1'' ''ping'')) = [deployment_p2\<lparr>dm_usage_count := 2\<rparr>]
   \<and> api_calls (get_dashboard_stats
        (snd (predict cfg_ready chat_pong env_a
           (snd (predict cfg_ready chat_pong env_a
              (snd (deploy_model env_a db_trained alice ''m1'')) alice ''m1'' ''ping''))
           alice ''m1'' ''ping'')) alice) = 2"
proof -
  have n: "\<forall>d\<in>set (deployed_models db_trained).
             \<not> (dm_training_id d = ''m1'' \<and> dm_user_id d = usr_id alice)"
    by (simp add: db_trained_def)
  have d: "deploy_model env_a db_trained alice ''m1'' =
             (Inr deployment_p2, db_trained\<lparr>deployed_models := [deployment_p2]\<rparr>)"
    by (simp add: deploy_model_def db_trained_def model_m1_def alice_def env_a_def
          deployment_p2_def Let_def)
  have p1: "predict cfg_ready chat_pong env_a (db_trained\<lparr>deployed_models := [deployment_p2]\<rparr>)
              alice ''m1'' ''ping'' =
             (Inr pong, db_trained\<lparr>deployed_models := [deployment_p2\<lparr>dm_usage_count := 1\<rparr>]\<rparr>)"
    by (simp add: predict_def test_model_def db_trained_def model_m1_def alice_def cfg_ready_def
          chat_pong_def env_a_def truthy_str_def deployment_p2_def inc_usage_def pong_def)
  have p2: "predict cfg_ready chat_pong env_a
              (db_trained\<lparr>deployed_models := [deployment_p2\<lparr>dm_usage_count := 1\<rparr>]\<rparr>)
              alice ''m1'' ''ping'' =
             (Inr pong, db_trained\<lparr>deployed_models := [deployment_p2\<lparr>dm_usage_count := 2\<rparr>]\<rparr>)"
    by (simp add: predict_def test_model_def db_trained_def model_m1_def alice_def cfg_ready_def
          chat_pong_def env_a_def truthy_str_def deployment_p2_def inc_usage_def pong_def)
  have e: "deployed_models db_trained = []" by (simp add: db_trained_def)
  show ?thesis
    using deploy_predict_twice [OF n d p1 p2] d p1 p2 e by simp
qed

text \<open>
  C4 as stated: after Deploy and two successful Predict calls the new deployment has
  usage_count = 2. In the fixture the first user has already deployed the model \<open>m1\<close>
  once; a second Deploy adds the record \<open>p2\<close>, both Predict calls succeed and count on
  the older record \<open>p1\<close>, and \<open>p2\<close> stays at 0.
\<close>

theorem redeploy_usage_stays_zero:
  "deploy_model env_a db_deployed alice ''m1'' =
     (Inr deployment_p2, db_trained\<lparr>deployed_models := [deployment_p1, deployment_p2]\<rparr>)
   \<and> predict cfg_ready chat_pong env_a
        (db_trained\<lparr>deployed_models := [deployment_p1, deployment_p2]\<rparr>) alice ''m1'' ''ping'' =
     (Inr pong,
      db_trained\<lparr>deployed_models := [deployment_p1\<lparr>dm_usage_count := 1\<rparr>, deployment_p2]\<rparr>)
   \<and> predict cfg_ready chat_pong env_a
        (db_trained\<lparr>deployed_models := [deployment_p1\<lparr>dm_usage_count := 1\<rparr>, deployment_p2]\<rparr>)
        alice ''m1'' ''ping'' =
     (Inr pong,
      db_trained\<lparr>deployed_models := [deployment_p1\<lparr>dm_usage_count := 2\<rparr>, deployment_p2]\<rparr>)
   \<and> dm_usage_count deployment_p2 = 0"
  by (simp add: deploy_model_def predict_def test_model_def db_deployed_def db_trained_def
        model_m1_def alice_def cfg_ready_def chat_pong_def env_a_def truthy_str_def
        deployment_p1_def deployment_p2_def inc_usage_def pong_def Let_def)










subsection \<open>Registration, login and tokens\<close>










lemma floor_le_real: "(x::real) \<le> now \<Longrightarrow> \<not> now < of_int \<lfloor>x\<rfloor>"
  using of_int_floor_le [of x] by linarith

lemma fixture_jwt_live:
  "now < of_int \<lfloor>p_exp p\<rfloor> \<Longrightarrow>
   jwt_decode fixture_crypto (jwt_encode fixture_crypto p s) s now = Decoded p"
  using floor_le_real [of "p_exp p" now]
  by (auto simp add: fixture_crypto_def fixture_decode_def)

lemma fixture_jwt_expired:
  "p_exp p \<le> now \<Longrightarrow>
   jwt_decode fixture_crypto (jwt_encode fixture_crypto p s) s now = ExpiredSignatureError"
  by (simp add: fixture_crypto_def fixture_decode_def)

text \<open>
  C5, amended. Let the JWT library decode a token that it signed under the same secret
  to its payload at every time before the expiry cut to whole seconds, and raise
  \<open>ExpiredSignatureError\<close> at the expiry and at every later time. Then a token issued
  at time \<open>T\<close> for a stored user is accepted at every verification time before
  \<open>T + 604800\<close> seconds cut to whole seconds, and rejected with status 401 at
  \<open>T + 604800\<close> and at every later time. A token that the library refuses as invalid or
  as expired is rejected with status 401, and so is a valid token whose user identifier
  is missing, empty, or not the identifier of a stored user.
\<close>

theorem token_lifetime:
  assumes live: "\<forall>p s now. now < of_int \<lfloor>p_exp p\<rfloor> \<longrightarrow>
                   jwt_decode C (jwt_encode C p s) s now = Decoded p"
      and dead: "\<forall>p s now. p_exp p \<le> now \<longrightarrow>
                   jwt_decode C (jwt_encode C p s) s now = ExpiredSignatureError"
  shows "(find (\<lambda>u. usr_id u = uid) (users st) = Some u \<and> uid \<noteq> []
            \<and> now < of_int \<lfloor>T + 604800\<rfloor> \<longrightarrow>
          get_current_user C cfg st now (create_access_token C cfg T uid) = Inr (User.truncate u))
       \<and> (T + 604800 \<le> now \<longrightarrow>
          get_current_user C cfg st now (create_access_token C cfg T uid) =
            Inl (HTTPException 401 ''Token expired''))
       \<and> (jwt_decode C tok (JWT_SECRET cfg) now = InvalidTokenError \<longrightarrow>
          get_current_user C cfg st now tok = Inl (HTTPException 401 ''Invalid token''))
       \<and> (jwt_decode C tok (JWT_SECRET cfg) now = ExpiredSignatureError \<longrightarrow>
          get_current_user C cfg st now tok = Inl (HTTPException 401 ''Token expired''))
       \<and> (jwt_decode C tok (JWT_SECRET cfg) now = Decoded q \<and> p_user_id q = Some uid2
            \<and> uid2 \<noteq> [] \<and> (\<forall>u\<in>set (users st). usr_id u \<noteq> uid2) \<longrightarrow>
          get_current_user C cfg st now tok = Inl (HTTPException 401 ''User not found''))
       \<and> (jwt_decode C tok (JWT_SECRET cfg) now = Decoded q
            \<and> (p_user_id q = None \<or> p_user_id q = Some []) \<longrightarrow>
          get_current_user C cfg st now tok = Inl (HTTPException 401 ''Invalid token''))"
proof (intro conjI impI)
  let ?p = "\<lparr>p_user_id = Some uid, p_exp = T + 3600 * 24 * 7\<rparr>"
  have tok: "create_access_token C cfg T uid = jwt_encode C ?p (JWT_SECRET cfg)"
    by (simp add: create_access_token_def)
  {
    assume h: "find (\<lambda>u. usr_id u = uid) (users st) = Some u \<and> uid \<noteq> []
            \<and> now < of_int \<lfloor>T + 604800\<rfloor>"
    then have "now < of_int \<lfloor>p_exp ?p\<rfloor>" by simp
    with live have "jwt_decode C (jwt_encode C ?p (JWT_SECRET cfg)) (JWT_SECRET cfg) now = Decoded ?p"
      by blast
    with h show "get_current_user C cfg st now (create_access_token C cfg T uid) =
        Inr (User.truncate u)"
      by (simp add: get_current_user_def tok truthy_str_def)
  }
  {
    assume "T + 604800 \<le> now"
    then have "p_exp ?p \<le> now" by simp
    with dead have "jwt_decode C (jwt_encode C ?p (JWT_SECRET cfg)) (JWT_SECRET cfg) now
        = ExpiredSignatureError" by blast
    then show "get_current_user C cfg st now (create_access_token C cfg T uid) =
            Inl (HTTPException 401 ''Token expired'')"
      by (simp add: get_current_user_def tok)
  }
  {
    assume "jwt_decode C tok (JWT_SECRET cfg) now = InvalidTokenError"
    then show "get_current_user C cfg st now tok = Inl (HTTPException 401 ''Invalid token'')"
      by (simp add: get_current_user_def)
  }
  {
    assume "jwt_decode C tok (JWT_SECRET cfg) now = ExpiredSignatureError"
    then show "get_current_user C cfg st now tok = Inl (HTTPException 401 ''Token expired'')"
      by (simp add: get_current_user_def)
  }
  {
    assume h: "jwt_decode C tok (JWT_SECRET cfg) now = Decoded q \<and> p_user_id q = Some uid2
            \<and> uid2 \<noteq> [] \<and> (\<forall>u\<in>set (users st). usr_id u \<noteq> uid2)"
    then have "find (\<lambda>u. usr_id u = uid2) (users st) = None" by (simp add: find_None_iff)
    with h show "get_current_user C cfg st now tok = Inl (HTTPException 401 ''User not found'')"
      by (simp add: get_current_user_def truthy_str_def)
  }
  {
    assume "jwt_decode C tok (JWT_SECRET cfg) now = Decoded q
            \<and> (p_user_id q = None \<or> p_user_id q = Some [])"
    then show "get_current_user C cfg st now tok = Inl (HTTPException 401 ''Invalid token'')"
      by (auto simp add: get_current_user_def truthy_str_def)
  }
qed

text \<open>
  C5 as stated: a token issued at time \<open>T\<close> is accepted at every verification time up
  to \<open>T + 7 days\<close>. A token issued at time 0 carries the expiry 604800; at the
  verification time 604800 the expiry is not after the current time, the library raises
  \<open>ExpiredSignatureError\<close>, and the request is rejected with status 401.
\<close>

theorem token_rejected_at_expiry:
  "get_current_user fixture_crypto cfg_ready db_trained 604800
     (create_access_token fixture_crypto cfg_ready 0 ''u1'') =
   Inl (HTTPException 401 ''Token expired'')"
  by (simp add: get_current_user_def create_access_token_def fixture_crypto_def
        fixture_decode_def cfg_ready_def)

theorem token_lifetime_witness:
  "get_current_user fixture_crypto cfg_ready db_trained 604799
     (create_access_token fixture_crypto cfg_ready 0 ''u1'') = Inr alice
   \<and> get_current_user fixture_crypto cfg_ready db_trained 604801
     (create_access_token fixture_crypto cfg_ready 0 ''u1'') =
       Inl (HTTPException 401 ''Token expired'')
   \<and> get_current_user fixture_crypto cfg_ready db_trained 5 (Opaque ''abc'') =
       Inl (HTTPException 401 ''Invalid token'')
   \<and> get_current_user fixture_crypto cfg_ready db_trained 5
        (Signed \<lparr>p_user_id = Some ''u1'', p_exp = 9\<rparr> ''forged'') =
       Inl (HTTPException 401 ''Invalid token'')
   \<and> get_current_user fixture_crypto cfg_ready db_trained 5
        (create_access_token fixture_crypto cfg_ready 0 ''u9'') =
       Inl (HTTPException 401 ''User not found'')"
proof -
  have live: "\<forall>p s now. now < of_int \<lfloor>p_exp p\<rfloor> \<longrightarrow>
      jwt_decode fixture_crypto (jwt_encode fixture_crypto p s) s now = Decoded p"
    using fixture_jwt_live by blast
  have dead: "\<forall>p s now. p_exp p \<le> now \<longrightarrow>
      jwt_decode fixture_crypto (jwt_encode fixture_crypto p s) s now = ExpiredSignatureError"
    using fixture_jwt_expired by blast
  note T = token_lifetime [OF live dead]
  have f: "find (\<lambda>u. usr_id u = ''u1'') (users db_trained) =
             Some (User.extend alice \<lparr>usr_password = ''abpw1''\<rparr>)"
    by (simp add: db_trained_def alice_def User.extend_def)
  have a: "User.truncate (User.extend alice \<lparr>usr_password = ''abpw1''\<rparr>) = alice"
    by (simp add: User.truncate_def User.extend_def)
  have fl: "(604799::real) < of_int \<lfloor>(0::real) + 604800\<rfloor>" by simp
  have o: "jwt_decode fixture_crypto (Opaque ''abc'') (JWT_SECRET cfg_ready) 5 = InvalidTokenError"
    by (simp add: fixture_crypto_def fixture_decode_def)
  have g: "jwt_decode fixture_crypto (Signed \<lparr>p_user_id = Some ''u1'', p_exp = 9\<rparr> ''forged'')
             (JWT_SECRET cfg_ready) 5 = InvalidTokenError"
    by (simp add: fixture_crypto_def fixture_decode_def cfg_ready_def)
  have d9: "jwt_decode fixture_crypto (create_access_token fixture_crypto cfg_ready 0 ''u9'')
              (JWT_SECRET cfg_ready) 5 = Decoded \<lparr>p_user_id = Some ''u9'', p_exp = 604800\<rparr>"
    by (simp add: fixture_crypto_def fixture_decode_def cfg_ready_def create_access_token_def)
  have n9: "\<forall>u\<in>set (users db_trained). usr_id u \<noteq> ''u9''"
    by (simp add: db_trained_def alice_def bob_def User.extend_def)
  show ?thesis
    using T [of "''u1''" db_trained "User.extend alice \<lparr>usr_password = ''abpw1''\<rparr>" 604799 0 cfg_ready]
          T [of "''u1''" db_trained _ 604801 0 cfg_ready]
          T [of _ db_trained _ 5 _ cfg_ready "Opaque ''abc''"]
          T [of _ db_trained _ 5 _ cfg_ready "Signed \<lparr>p_user_id = Some ''u1'', p_exp = 9\<rparr> ''forged''"]
          T [of _ db_trained _ 5 _ cfg_ready "create_access_token fixture_crypto cfg_ready 0 ''u9''"
               "\<lparr>p_user_id = Some ''u9'', p_exp = 604800\<rparr>" "''u9''"]
          f a fl o g d9 n9
    by simp
qed

end
